theory Spec2Isabelle
  imports Main
begin

section \<open>Data model\<close>

text \<open>
  The rows the admin panel works on, as the TypeScript interfaces of
  \<^verbatim>\<open>AdminPanel.tsx\<close> declare them. A field typed \<^verbatim>\<open>string | null\<close> is an
  option. The occupancy counter \<^verbatim>\<open>current_users\<close> is an option as well: the code
  reads it as \<^verbatim>\<open>room.current_users || 0\<close>, so a row fetched from the store may
  carry \<^verbatim>\<open>null\<close> there (\<open>None\<close>).
\<close>

record Room =
  id_room :: string
  name :: string
  description :: string
  url :: string
  max_users :: int
  price_inr :: int
  session_date :: "string option"
  session_start_time :: "string option"
  session_end_time :: "string option"
  current_users :: "int option"
  created_at :: "string option"

record Session =
  id_session :: string
  room_id :: string
  username :: string
  rewards_left :: int
  last_updated :: string

text \<open>
  A change event of the feed: \<^verbatim>\<open>payload.eventType\<close> with the row snapshots that
  kind of event carries: \<^verbatim>\<open>payload.new\<close> for an insert, \<^verbatim>\<open>payload.old\<close> and then
  \<^verbatim>\<open>payload.new\<close> for an update, \<^verbatim>\<open>payload.old\<close> for a delete. The snapshot an
  event does not carry is the empty object \<^verbatim>\<open>{}\<close>.
\<close>

datatype 'r payload =
    INSERT 'r
  | UPDATE 'r 'r
  | DELETE 'r


section \<open>Session list reconciler (AdminPanel.tsx, roomSubscription)\<close>

text \<open>
  The callback of \<^verbatim>\<open>roomSubscription\<close> computes \<^verbatim>\<open>todayStr\<close> from the clock on
  every delivery of an event and passes a state updater to \<^verbatim>\<open>setRooms\<close>; the model
  is that updater, from the previous list \<open>prev\<close> to the next one, with the \<open>todayStr\<close>
  of that delivery as a parameter. Two deliveries have two readings.
  \<^verbatim>\<open>prev.some(room => room.id === x.id)\<close> is \<open>list_ex\<close>.
\<close>

definition roomSubscription :: "string \<Rightarrow> Room payload \<Rightarrow> Room list \<Rightarrow> Room list" where
  "roomSubscription todayStr p prev =
     (case p of
        INSERT newRoom \<Rightarrow>
          if session_date newRoom \<noteq> Some todayStr then prev
          else if list_ex (\<lambda>room. id_room room = id_room newRoom) prev then prev
          else newRoom # prev
      | UPDATE oldRoom updatedRoom \<Rightarrow>
          if \<not> list_ex (\<lambda>room. id_room room = id_room updatedRoom) prev
             \<and> session_date updatedRoom \<noteq> Some todayStr
          then prev
          else map (\<lambda>room. if id_room room = id_room updatedRoom then updatedRoom else room) prev
      | DELETE deletedRoom \<Rightarrow>
          filter (\<lambda>room. id_room room \<noteq> id_room deletedRoom) prev)"

text \<open>Example rows used to run the definitions on concrete inputs.\<close>

definition room_a :: Room where
  "room_a = \<lparr> id_room = ''a'', name = ''Alpha'', description = ''GPU box'', url = ''https://a'',
     max_users = 10, price_inr = 100, session_date = Some ''2025-01-05'',
     session_start_time = Some ''09:00:00'', session_end_time = Some ''17:00:00'',
     current_users = Some 3, created_at = None \<rparr>"

definition room_b :: Room where
  "room_b = \<lparr> id_room = ''b'', name = ''Beta'', description = ''CPU box'', url = ''https://b'',
     max_users = 10, price_inr = 50, session_date = Some ''2025-01-05'',
     session_start_time = Some ''09:00:00'', session_end_time = Some ''17:00:00'',
     current_users = Some 10, created_at = None \<rparr>"


section \<open>Occupancy updater (AdminPanel.tsx, sessionSubscription and updateRoomUserCount)\<close>

text \<open>
  The callback of \<^verbatim>\<open>sessionSubscription\<close>. Its only effect is the calls
  \<^verbatim>\<open>await updateRoomUserCount(roomId, change)\<close> it makes, and
  \<^verbatim>\<open>updateRoomUserCount\<close> never throws (its body is one try/catch), so the
  model returns the calls in the order they are made, each as \<open>(roomId, change)\<close>.
  \<^verbatim>\<open>payload.new || payload.old\<close> is \<^verbatim>\<open>payload.new\<close> whenever that is an object:
  the new row for an insert and for an update, and for a delete the empty object
  \<^verbatim>\<open>{}\<close> that the feed's client puts there, which has no \<^verbatim>\<open>room_id\<close>.
  \<^verbatim>\<open>!session?.room_id\<close> holds for a missing field and for the empty string, the
  falsy value of the declared type \<^verbatim>\<open>string\<close>; both are \<open>[]\<close> here. So a delete
  event stops at the guard, and the DELETE branch, kept below as the source has it, is
  never reached. The two tests of the UPDATE branch are two separate \<^verbatim>\<open>if\<close>
  statements, hence the concatenation.
\<close>

type_synonym delta = "string \<times> int"

definition sessionSubscription :: "Session payload \<Rightarrow> delta list" where
  "sessionSubscription p =
     (let session_room_id =
            (case p of
               INSERT n \<Rightarrow> room_id n
             | UPDATE oldSession n \<Rightarrow> room_id n
             | DELETE oldSession \<Rightarrow> [])
      in if session_room_id = [] then []
         else
           let roomId = session_room_id in
           (case p of
              INSERT sessionData \<Rightarrow>
                if rewards_left sessionData > 0 then [(roomId, 1)] else []
            | UPDATE oldSession newSession \<Rightarrow>
                if room_id oldSession \<noteq> room_id newSession then []
                else
                  (if rewards_left oldSession > 0 \<and> rewards_left newSession \<le> 0
                   then [(roomId, - 1)] else [])
                  @ (if rewards_left oldSession \<le> 0 \<and> rewards_left newSession > 0
                     then [(roomId, 1)] else [])
            | DELETE sessionData \<Rightarrow>
                if rewards_left sessionData > 0 then [(roomId, - 1)] else []))"

text \<open>
  The remote store answers a call with data or with an error. Whether a call fails
  (network, permission, constraint) is the store's choice, so every modelled call takes
  its fault as a parameter: \<open>None\<close> for a call that goes through, \<open>Some msg\<close> for one the
  store refuses. \<^verbatim>\<open>.single()\<close> is an error unless exactly one row matches.
\<close>

definition single :: "'a list \<Rightarrow> string + 'a" where
  "single rows = (case rows of [r] \<Rightarrow> Inr r | _ \<Rightarrow> Inl ''JSON object requested, multiple (or no) rows returned'')"

text \<open>\<^verbatim>\<open>x || 0\<close> on a counter that is a number or \<^verbatim>\<open>null\<close>.\<close>

definition or_zero :: "int option \<Rightarrow> int" where
  "or_zero x = (case x of None \<Rightarrow> 0 | Some n \<Rightarrow> n)"

text \<open>
  \<^verbatim>\<open>updateRoomUserCount\<close> suspends twice: at the fetch and at the update. The first half
  runs up to \<^verbatim>\<open>newCount\<close>; an \<open>Inl\<close> is the error the \<^verbatim>\<open>catch\<close> logs and swallows.
  The second half is the update, which the store applies to every row with that id, or
  refuses.
\<close>

definition updateRoomUserCount_fetch :: "string option \<Rightarrow> Room list \<Rightarrow> string \<Rightarrow> int \<Rightarrow> string + int" where
  "updateRoomUserCount_fetch fetchError rooms roomId change =
     (case (case fetchError of
              Some e \<Rightarrow> Inl e
            | None \<Rightarrow> single (filter (\<lambda>r. id_room r = roomId) rooms)) of
        Inl e \<Rightarrow> Inl e
      | Inr room \<Rightarrow> Inr (max 0 (or_zero (current_users room) + change)))"

definition updateRoomUserCount_update :: "string option \<Rightarrow> Room list \<Rightarrow> string \<Rightarrow> int \<Rightarrow> Room list" where
  "updateRoomUserCount_update updateError rooms roomId newCount =
     (case updateError of
        Some e \<Rightarrow> rooms
      | None \<Rightarrow> map (\<lambda>r. if id_room r = roomId then r\<lparr>current_users := Some newCount\<rparr> else r) rooms)"

text \<open>
  One call run to its end with nothing in between: the new table and the writes issued
  (at most one), each as \<open>(roomId, newCount)\<close>.
\<close>

definition updateRoomUserCount ::
    "string option \<Rightarrow> string option \<Rightarrow> Room list \<Rightarrow> string \<Rightarrow> int \<Rightarrow> Room list \<times> (string \<times> int) list" where
  "updateRoomUserCount fetchError updateError rooms roomId change =
     (case updateRoomUserCount_fetch fetchError rooms roomId change of
        Inl e \<Rightarrow> (rooms, [])
      | Inr newCount \<Rightarrow>
          (updateRoomUserCount_update updateError rooms roomId newCount, [(roomId, newCount)]))"

text \<open>
  The callback is asynchronous and the feed does not wait for it, so calls of
  \<^verbatim>\<open>updateRoomUserCount\<close> interleave at their suspension points. A schedule is a list
  of actions: \<open>Call\<close> starts a delta operation and runs its first half, leaving the
  computed write in flight; \<open>Resume i\<close> lets the \<open>i\<close>-th operation in flight issue its
  update. \<open>writes\<close> logs every update issued, applied or refused.
\<close>

record updater =
  table :: "Room list"
  inflight :: "(string \<times> int) list"
  writes :: "(string \<times> int) list"

datatype action =
    Call string int "string option"
  | Resume nat "string option"

fun step :: "updater \<Rightarrow> action \<Rightarrow> updater" where
  "step st (Call roomId change fetchError) =
     (case updateRoomUserCount_fetch fetchError (table st) roomId change of
        Inl e \<Rightarrow> st
      | Inr newCount \<Rightarrow> st\<lparr>inflight := inflight st @ [(roomId, newCount)]\<rparr>)"
| "step st (Resume i updateError) =
     (if i < length (inflight st)
      then st\<lparr>table := updateRoomUserCount_update updateError (table st)
                           (fst (inflight st ! i)) (snd (inflight st ! i)),
              inflight := take i (inflight st) @ drop (Suc i) (inflight st),
              writes := writes st @ [inflight st ! i]\<rparr>
      else st)"

definition run :: "updater \<Rightarrow> action list \<Rightarrow> updater" where
  "run st acts = foldl step st acts"

definition start :: "Room list \<Rightarrow> updater" where
  "start rs = \<lparr>table = rs, inflight = [], writes = []\<rparr>"

text \<open>
  The invariant of a schedule in progress: every write computed so far, in flight or
  issued, carries a count that is not negative.
\<close>

definition writes_nonneg :: "updater \<Rightarrow> bool" where
  "writes_nonneg st =
     (list_all (\<lambda>w. 0 \<le> snd w) (inflight st) \<and> list_all (\<lambda>w. 0 \<le> snd w) (writes st))"

text \<open>A row whose counter, read as the code reads it, is not negative.\<close>

definition nonneg :: "Room \<Rightarrow> bool" where
  "nonneg r = (0 \<le> or_zero (current_users r))"

definition session_5 :: Session where
  "session_5 = \<lparr> id_session = ''s1'', room_id = ''a'', username = ''u'', rewards_left = 5,
     last_updated = ''2025-01-05T10:00:00Z'' \<rparr>"


section \<open>Session-window status classifier (RoomList.jsx, getStatusBadge)\<close>

text \<open>
  A JavaScript \<^verbatim>\<open>Date\<close> read in local time: either the invalid date, whose getters all
  return \<^verbatim>\<open>NaN\<close>, or a date with its year, month (from 0), day of the month, hours and
  minutes. A number that may be \<^verbatim>\<open>NaN\<close> is a \<open>nat option\<close>; every comparison with
  \<^verbatim>\<open>NaN\<close> is false.
\<close>

datatype Date = Invalid_Date | Date_at nat nat nat nat nat

fun getFullYear :: "Date \<Rightarrow> nat option" where
  "getFullYear Invalid_Date = None"
| "getFullYear (Date_at y mo d h mi) = Some y"

fun getMonth :: "Date \<Rightarrow> nat option" where
  "getMonth Invalid_Date = None"
| "getMonth (Date_at y mo d h mi) = Some mo"

fun getDate :: "Date \<Rightarrow> nat option" where
  "getDate Invalid_Date = None"
| "getDate (Date_at y mo d h mi) = Some d"

fun getHours :: "Date \<Rightarrow> nat option" where
  "getHours Invalid_Date = None"
| "getHours (Date_at y mo d h mi) = Some h"

fun getMinutes :: "Date \<Rightarrow> nat option" where
  "getMinutes Invalid_Date = None"
| "getMinutes (Date_at y mo d h mi) = Some mi"

text \<open>\<^verbatim>\<open>d.getHours() * 60 + d.getMinutes()\<close>, and the comparisons \<^verbatim>\<open>>=\<close> and \<^verbatim>\<open><=\<close>.\<close>

definition minutesOfDay :: "Date \<Rightarrow> nat option" where
  "minutesOfDay d =
     (case (getHours d, getMinutes d) of (Some h, Some mi) \<Rightarrow> Some (h * 60 + mi) | _ \<Rightarrow> None)"

definition num_ge :: "nat option \<Rightarrow> nat option \<Rightarrow> bool" where
  "num_ge a b = (case (a, b) of (Some x, Some y) \<Rightarrow> x \<ge> y | _ \<Rightarrow> False)"

definition num_le :: "nat option \<Rightarrow> nat option \<Rightarrow> bool" where
  "num_le a b = (case (a, b) of (Some x, Some y) \<Rightarrow> x \<le> y | _ \<Rightarrow> False)"

text \<open>\<^verbatim>\<open>String(n)\<close> of a number that is a natural or \<^verbatim>\<open>NaN\<close>, and \<^verbatim>\<open>padStart\<close>.\<close>

function String_nat :: "nat \<Rightarrow> string" where
  "String_nat n =
     (if n < 10 then [''0123456789'' ! n]
      else String_nat (n div 10) @ [''0123456789'' ! (n mod 10)])"
  by pat_completeness auto
termination
  by (relation "measure id") auto

declare String_nat.simps [simp del]

definition String_num :: "nat option \<Rightarrow> string" where
  "String_num x = (case x of None \<Rightarrow> ''NaN'' | Some n \<Rightarrow> String_nat n)"

definition padStart :: "nat \<Rightarrow> char \<Rightarrow> string \<Rightarrow> string" where
  "padStart n c s = replicate (n - length s) c @ s"

text \<open>
  What the classifier reads from outside: the clock (\<^verbatim>\<open>new Date()\<close>) and the
  \<^verbatim>\<open>Date\<close> library, which builds a date from a full ISO string
  (\<^verbatim>\<open>new Date(timeStr)\<close>) or from a time of day
  (\<^verbatim>\<open>timeStr.split(':').map(Number)\<close>, then \<^verbatim>\<open>setHours\<close> on today's date).
\<close>

record js_env =
  now :: Date
  dateFromISO :: "string \<Rightarrow> Date"
  dateFromTimeOfDay :: "string \<Rightarrow> Date"

definition parseTimeString :: "js_env \<Rightarrow> string option \<Rightarrow> Date option" where
  "parseTimeString env timeStr =
     (case timeStr of
        None \<Rightarrow> None
      | Some s \<Rightarrow>
          if s = [] then None
          else if CHR ''T'' \<in> set s then Some (dateFromISO env s)
          else Some (dateFromTimeOfDay env s))"

definition todayFormatted :: "Date \<Rightarrow> string" where
  "todayFormatted today =
     (let year = String_num (getFullYear today);
          month = padStart 2 CHR ''0'' (String_num (map_option Suc (getMonth today)));
          day = padStart 2 CHR ''0'' (String_num (getDate today))
      in year @ ''-'' @ month @ ''-'' @ day)"

datatype badge = Inactive | Full | Active

text \<open>
  \<^verbatim>\<open>room.current_users >= room.max_users\<close> reads a \<^verbatim>\<open>null\<close> counter as 0, as
  \<open>or_zero\<close> does. \<^verbatim>\<open>room.session_date || null\<close> turns the empty string into
  \<^verbatim>\<open>null\<close>. The two calls of \<^verbatim>\<open>new Date()\<close> are one reading of the clock.
\<close>

definition getStatusBadge :: "js_env \<Rightarrow> Room \<Rightarrow> badge" where
  "getStatusBadge env room =
     (let currentTime = now env;
          startTime = parseTimeString env (session_start_time room);
          endTime = parseTimeString env (session_end_time room);
          isFull = (or_zero (current_users room) \<ge> max_users room);
          isActive =
            (case (startTime, endTime) of
               (Some st, Some en) \<Rightarrow>
                 let sessionDate = (case session_date room of
                                      None \<Rightarrow> None
                                    | Some d \<Rightarrow> if d = [] then None else Some d);
                     isCorrectDate = (sessionDate = Some (todayFormatted (now env)));
                     currentMinutes = minutesOfDay currentTime;
                     startMinutes = minutesOfDay st;
                     endMinutes = minutesOfDay en;
                     isWithinTimeRange =
                       (num_ge currentMinutes startMinutes \<and> num_le currentMinutes endMinutes)
                 in isCorrectDate \<and> isWithinTimeRange
             | _ \<Rightarrow> False)
      in if \<not> isActive then Inactive else if isFull then Full else Active)"

text \<open>
  The gate in the words of the specification: the session's date is today's date, and
  the current minutes since midnight lie within [start, end], both ends included. A
  session without a start or an end time, or with one that is no valid time, has no
  window to be in.
\<close>

definition start_minutes :: "js_env \<Rightarrow> Room \<Rightarrow> nat option" where
  "start_minutes env room =
     (case parseTimeString env (session_start_time room) of None \<Rightarrow> None | Some d \<Rightarrow> minutesOfDay d)"

definition end_minutes :: "js_env \<Rightarrow> Room \<Rightarrow> nat option" where
  "end_minutes env room =
     (case parseTimeString env (session_end_time room) of None \<Rightarrow> None | Some d \<Rightarrow> minutesOfDay d)"

definition date_time_gate :: "js_env \<Rightarrow> Room \<Rightarrow> bool" where
  "date_time_gate env room =
     (session_date room = Some (todayFormatted (now env))
      \<and> (case (start_minutes env room, end_minutes env room, minutesOfDay (now env)) of
           (Some s, Some e, Some c) \<Rightarrow> s \<le> c \<and> c \<le> e
         | _ \<Rightarrow> False))"

text \<open>A clock and a library for the examples: 5 January 2025 at noon, or at 20:00.\<close>

definition env_at :: "nat \<Rightarrow> nat \<Rightarrow> js_env" where
  "env_at h mi =
     \<lparr> now = Date_at 2025 0 5 h mi,
       dateFromISO = (\<lambda>s. Invalid_Date),
       dateFromTimeOfDay = (\<lambda>s. if s = ''09:00:00'' then Date_at 2025 0 5 9 0
                                 else if s = ''17:00:00'' then Date_at 2025 0 5 17 0
                                 else Invalid_Date) \<rparr>"


section \<open>Promo code badge (PromoCodeManager)\<close>

text \<open>
  The fields of a promo code row that the list reads. \<^verbatim>\<open>total_uses\<close> may be
  \<^verbatim>\<open>null\<close> (the card shows \<^verbatim>\<open>code.total_uses || 0\<close>), and \<^verbatim>\<open>null < n\<close> compares 0.
\<close>

record PromoCode =
  id_promo :: string
  code :: string
  influencer_id :: string
  discount_amount :: int
  max_uses :: int
  total_uses :: "int option"
  expiry_date :: "string option"

text \<open>
  The text of the badge. \<open>getTime\<close> is the library's reading of a date string as a time
  stamp (\<open>None\<close> for an invalid date, whose comparison is false), \<open>nowMs\<close> the clock.
  \<^verbatim>\<open>!code.expiry_date\<close> holds for \<^verbatim>\<open>null\<close> and for the empty string.
\<close>

definition promoCodeStatus :: "(string \<Rightarrow> int option) \<Rightarrow> int \<Rightarrow> PromoCode \<Rightarrow> string" where
  "promoCodeStatus getTime nowMs c =
     (if or_zero (total_uses c) < max_uses c
         \<and> (case expiry_date c of
              None \<Rightarrow> True
            | Some s \<Rightarrow> s = [] \<or> (case getTime s of None \<Rightarrow> False | Some t \<Rightarrow> t > nowMs))
      then ''Active'' else ''Expired'')"

text \<open>The classification in the words of the specification.\<close>

definition no_expiry :: "PromoCode \<Rightarrow> bool" where
  "no_expiry c = (expiry_date c = None \<or> expiry_date c = Some [])"

definition expiry_in_future :: "(string \<Rightarrow> int option) \<Rightarrow> int \<Rightarrow> PromoCode \<Rightarrow> bool" where
  "expiry_in_future getTime nowMs c =
     (case expiry_date c of
        None \<Rightarrow> False
      | Some s \<Rightarrow> (case getTime s of None \<Rightarrow> False | Some t \<Rightarrow> nowMs < t))"

definition promo_active_spec :: "(string \<Rightarrow> int option) \<Rightarrow> int \<Rightarrow> PromoCode \<Rightarrow> bool" where
  "promo_active_spec getTime nowMs c =
     (or_zero (total_uses c) < max_uses c \<and> (no_expiry c \<or> expiry_in_future getTime nowMs c))"

definition SAVE20 :: "int \<Rightarrow> PromoCode" where
  "SAVE20 used = \<lparr> id_promo = ''p1'', code = ''SAVE20'', influencer_id = ''inf1'',
     discount_amount = 20, max_uses = 50, total_uses = Some used, expiry_date = None \<rparr>"


section \<open>Deleting a session (lib/supabase.js, roomService.deleteRoom)\<close>

text \<open>
  The two tables of the store that \<^verbatim>\<open>deleteRoom\<close> touches, and the calls it can issue.
  A call the store refuses changes nothing there. The result is the \<^verbatim>\<open>error\<close> field of
  the object returned: \<open>None\<close> for \<^verbatim>\<open>null\<close>, else the message.
\<close>

record db =
  rooms :: "Room list"
  user_sessions :: "Session list"

datatype delete_call = Delete_user_sessions string | Delete_rooms string

definition deleteRoom ::
    "string option \<Rightarrow> string option \<Rightarrow> db \<Rightarrow> string \<Rightarrow> db \<times> delete_call list \<times> string option" where
  "deleteRoom sessionsError error d id' =
     (case sessionsError of
        Some e \<Rightarrow> (d, [Delete_user_sessions id'], Some e)
      | None \<Rightarrow>
          let d1 = d\<lparr>user_sessions := filter (\<lambda>s. room_id s \<noteq> id') (user_sessions d)\<rparr> in
          (case error of
             Some e \<Rightarrow> (d1, [Delete_user_sessions id', Delete_rooms id'], Some e)
           | None \<Rightarrow>
               (d1\<lparr>rooms := filter (\<lambda>r. id_room r \<noteq> id') (rooms d1)\<rparr>,
                [Delete_user_sessions id', Delete_rooms id'], None)))"

definition db_0 :: db where
  "db_0 = \<lparr> rooms = [room_a, room_b], user_sessions = [session_5] \<rparr>"


section \<open>Rejecting a withdrawal (PayoutManager.tsx and lib/supabase.js)\<close>

text \<open>
  Rows of \<^verbatim>\<open>influencer_withdrawals\<close> as the store returns them: objects, that is lists
  of fields with their values, so that a row with and a row without a \<^verbatim>\<open>notes\<close> field
  are different rows. \<^verbatim>\<open>'k' in obj\<close> is \<open>has_field\<close>; the store applies an update
  object field by field (\<open>put\<close>).
\<close>

datatype json = JNull | JString string | JNumber int

type_synonym row = "(string \<times> json) list"

definition has_field :: "string \<Rightarrow> row \<Rightarrow> bool" where
  "has_field k r = (map_of r k \<noteq> None)"

fun put :: "string \<Rightarrow> json \<Rightarrow> row \<Rightarrow> row" where
  "put k v [] = [(k, v)]"
| "put k v ((k', v') # r) = (if k' = k then (k, v) # r else (k', v') # put k v r)"

definition apply_update :: "row \<Rightarrow> row \<Rightarrow> row" where
  "apply_update updateObj r = foldl (\<lambda>acc (k, v). put k v acc) r updateObj"

definition id_is :: "string \<Rightarrow> row \<Rightarrow> bool" where
  "id_is id' r = (map_of r ''id'' = Some (JString id'))"

text \<open>
  The calls on the table: \<^verbatim>\<open>.select('*').eq('id', id).single()\<close> and
  \<^verbatim>\<open>.update(updateObj).eq('id', id).select()\<close>. The result \<^verbatim>\<open>{ data, error }\<close> of
  a service function is \<open>Inr data\<close> or \<open>Inl message\<close>.
\<close>

datatype payout_call = Select_single string | Update row string

text \<open>
  \<^verbatim>\<open>payoutService.rejectWithdrawal\<close> of lib/supabase.js: it fetches the current record
  first and adds \<^verbatim>\<open>notes\<close> to the update only if the record has that field.
\<close>

definition rejectWithdrawal_supabase ::
    "string option \<Rightarrow> string option \<Rightarrow> row list \<Rightarrow> string \<Rightarrow> string
       \<Rightarrow> row list \<times> payout_call list \<times> (string + row list)" where
  "rejectWithdrawal_supabase fetchError error tbl id' notes' =
     (case (case fetchError of
              Some e \<Rightarrow> Inl e
            | None \<Rightarrow> single (filter (id_is id') tbl)) of
        Inl e \<Rightarrow> (tbl, [Select_single id'], Inl e)
      | Inr currentRecord \<Rightarrow>
          let updateObj = [(''status'', JString ''rejected'')];
              updateObj = (if has_field ''notes'' currentRecord
                           then updateObj @ [(''notes'', JString notes')] else updateObj)
          in (case error of
                Some e \<Rightarrow> (tbl, [Select_single id', Update updateObj id'], Inl e)
              | None \<Rightarrow>
                  (map (\<lambda>r. if id_is id' r then apply_update updateObj r else r) tbl,
                   [Select_single id', Update updateObj id'],
                   Inr (map (apply_update updateObj) (filter (id_is id') tbl)))))"

text \<open>
  \<^verbatim>\<open>payoutService.rejectWithdrawal\<close> of PayoutManager.tsx, the local object that the
  component calls: one update, with \<^verbatim>\<open>status\<close> and \<^verbatim>\<open>notes\<close>.
\<close>

definition rejectWithdrawal ::
    "string option \<Rightarrow> row list \<Rightarrow> string \<Rightarrow> string
       \<Rightarrow> row list \<times> payout_call list \<times> (string + row list)" where
  "rejectWithdrawal error tbl id' notes' =
     (let updateObj = [(''status'', JString ''rejected''), (''notes'', JString notes')]
      in (case error of
            Some e \<Rightarrow> (tbl, [Update updateObj id'], Inl e)
          | None \<Rightarrow>
              (map (\<lambda>r. if id_is id' r then apply_update updateObj r else r) tbl,
               [Update updateObj id'],
               Inr (map (apply_update updateObj) (filter (id_is id') tbl)))))"

text \<open>The update objects among the calls issued.\<close>

fun updates_issued :: "payout_call list \<Rightarrow> row list" where
  "updates_issued [] = []"
| "updates_issued (Select_single i # cs) = updates_issued cs"
| "updates_issued (Update obj i # cs) = obj # updates_issued cs"

text \<open>
  The component: the interface \<^verbatim>\<open>WithdrawalRequest\<close> and the state that
  \<^verbatim>\<open>handleConfirmReject\<close> reads and sets (\<open>notes_state\<close> is the state variable
  \<^verbatim>\<open>notes\<close>). The messages of the notifications are kept
  without their leading pictograph.
\<close>

datatype withdrawal_status = pending | approved | paid | rejected

record WithdrawalRequest =
  id_withdrawal :: string
  influencer :: string
  amount :: int
  amount_withdrawn :: int
  status :: withdrawal_status
  payment_method :: string
  requested_at :: string
  paid_at :: "string option"
  notes_withdrawal :: "string option"

record PayoutManager =
  selectedWithdrawal :: "WithdrawalRequest option"
  notes_state :: string
  showRejectModal :: bool
  notification :: "(string \<times> string) option"

text \<open>
  \<^verbatim>\<open>String.prototype.trim\<close> removes white space and line terminators at both ends;
  with a character read as a code unit below 256 these are the seven below.
\<close>

definition isWhiteSpace :: "char \<Rightarrow> bool" where
  "isWhiteSpace c = (c \<in> set [CHR 0x09, CHR 0x0A, CHR 0x0B, CHR 0x0C, CHR 0x0D, CHR 0x20, CHR 0xA0])"

definition trim :: "string \<Rightarrow> string" where
  "trim s = rev (dropWhile isWhiteSpace (rev (dropWhile isWhiteSpace s)))"

text \<open>
  \<^verbatim>\<open>handleConfirmReject\<close>: the new state, the new table and the remote calls issued.
  \<^verbatim>\<open>if (error) throw new Error(error)\<close> takes the failure path for a message that is
  not empty.
\<close>

definition handleConfirmReject ::
    "string option \<Rightarrow> PayoutManager \<Rightarrow> row list \<Rightarrow> PayoutManager \<times> row list \<times> payout_call list" where
  "handleConfirmReject error st tbl =
     (case selectedWithdrawal st of
        None \<Rightarrow> (st, tbl, [])
      | Some w \<Rightarrow>
          if trim (notes_state st) = [] then (st, tbl, [])
          else
            (case rejectWithdrawal error tbl (id_withdrawal w) (notes_state st) of
               (tbl', calls, res) \<Rightarrow>
                 (case res of
                    Inl e \<Rightarrow>
                      if e \<noteq> []
                      then (st\<lparr>notification :=
                               Some (''Failed to reject withdrawal. Please try again.'', ''error'')\<rparr>,
                            tbl', calls)
                      else (st\<lparr>showRejectModal := False, selectedWithdrawal := None, notes_state := [],
                               notification :=
                                 Some (''Withdrawal request rejected successfully!'', ''success'')\<rparr>,
                            tbl', calls)
                  | Inr data \<Rightarrow>
                      (st\<lparr>showRejectModal := False, selectedWithdrawal := None, notes_state := [],
                          notification :=
                            Some (''Withdrawal request rejected successfully!'', ''success'')\<rparr>,
                       tbl', calls))))"

definition withdrawal_1 :: WithdrawalRequest where
  "withdrawal_1 = \<lparr> id_withdrawal = ''w1'', influencer = ''inf1'', amount = 500,
     amount_withdrawn = 500, status = pending, payment_method = ''upi'',
     requested_at = ''2025-01-05T08:00:00Z'', paid_at = None, notes_withdrawal = None \<rparr>"

definition row_with_notes :: row where
  "row_with_notes = [(''id'', JString ''w1''), (''status'', JString ''pending''), (''notes'', JNull)]"

definition row_without_notes :: row where
  "row_without_notes = [(''id'', JString ''w1''), (''status'', JString ''pending'')]"

definition reject_modal :: "string \<Rightarrow> PayoutManager" where
  "reject_modal n = \<lparr> selectedWithdrawal = Some withdrawal_1, notes_state = n, showRejectModal = True,
     notification = None \<rparr>"


section \<open>Properties of the session list reconciler\<close>

lemma map_replace_absent:
  "\<not> list_ex (\<lambda>room. id_room room = k) prev \<Longrightarrow>
     map (\<lambda>room. if id_room room = k then u else room) prev = prev"
  by (induction prev) auto

text \<open>
  C10. An update event whose record id is absent from the current list leaves the list
  unchanged, whatever the record's scheduled date is: when the date is not today the
  handler returns the list early, and when it is today the map finds no entry to replace.
\<close>

theorem update_absent_unchanged:
  "\<not> list_ex (\<lambda>room. id_room room = id_room updatedRoom) prev \<Longrightarrow>
     roomSubscription todayStr (UPDATE oldRoom updatedRoom) prev = prev"
  by (simp add: roomSubscription_def map_replace_absent)

text \<open>The row \<open>b\<close> is scheduled for today and absent from the list: it is not added.\<close>

theorem update_absent_unchanged_witness:
  "\<not> list_ex (\<lambda>room. id_room room = id_room room_b) [room_a]
   \<and> session_date room_b = Some ''2025-01-05''
   \<and> roomSubscription ''2025-01-05'' (UPDATE room_b room_b) [room_a] = [room_a]"
  using update_absent_unchanged [of room_b "[room_a]" "''2025-01-05''" room_b]
  by (simp add: room_a_def room_b_def)

text \<open>
  C5. For an update event: if the record's id is not in the list and its date is not
  today, the list is unchanged. If the id is in the list, the result has the same length
  and at every position holds the updated record where the entry had that id and the old
  entry elsewhere, whatever the date of the updated record is.
\<close>

theorem update_present_replaced:
  "(\<not> list_ex (\<lambda>room. id_room room = id_room updatedRoom) prev
      \<and> session_date updatedRoom \<noteq> Some todayStr
      \<longrightarrow> roomSubscription todayStr (UPDATE oldRoom updatedRoom) prev = prev)
   \<and> (list_ex (\<lambda>room. id_room room = id_room updatedRoom) prev \<longrightarrow>
        length (roomSubscription todayStr (UPDATE oldRoom updatedRoom) prev) = length prev
        \<and> (\<forall>i < length prev.
              roomSubscription todayStr (UPDATE oldRoom updatedRoom) prev ! i
                = (if id_room (prev ! i) = id_room updatedRoom then updatedRoom else prev ! i)))"
  by (simp add: roomSubscription_def)

text \<open>
  The row \<open>b\<close> moves to the next day: in the list it is replaced where it stands, and
  where it is absent the event is ignored.
\<close>

theorem update_present_replaced_witness:
  "list_ex (\<lambda>room. id_room room = id_room (room_b\<lparr>session_date := Some ''2025-01-06''\<rparr>))
       [room_a, room_b]
   \<and> roomSubscription ''2025-01-05''
        (UPDATE room_b (room_b\<lparr>session_date := Some ''2025-01-06''\<rparr>)) [room_a, room_b] ! 0 = room_a
   \<and> roomSubscription ''2025-01-05''
        (UPDATE room_b (room_b\<lparr>session_date := Some ''2025-01-06''\<rparr>)) [room_a, room_b] ! 1
        = room_b\<lparr>session_date := Some ''2025-01-06''\<rparr>
   \<and> \<not> list_ex (\<lambda>room. id_room room = id_room (room_b\<lparr>session_date := Some ''2025-01-06''\<rparr>))
       [room_a]
   \<and> roomSubscription ''2025-01-05''
        (UPDATE room_b (room_b\<lparr>session_date := Some ''2025-01-06''\<rparr>)) [room_a] = [room_a]"
  using update_present_replaced [of "room_b\<lparr>session_date := Some ''2025-01-06''\<rparr>"
      "[room_a, room_b]" "''2025-01-05''" room_b]
    update_present_replaced [of "room_b\<lparr>session_date := Some ''2025-01-06''\<rparr>"
      "[room_a]" "''2025-01-05''" room_b]
  by (simp add: room_a_def room_b_def)

text \<open>
  C6, as the code has it. Every delivery reads today's date anew. Folding an insert event
  a second time, with the reading \<open>todayStr'\<close>, gives the list that folding it once, with
  the reading \<open>todayStr\<close>, gave, except in one case: the record's id is not in the list
  and its date is not today at the first delivery but is today at the second. In
  particular two folds with the same reading give what one gives. For every reading, an
  insert whose id is in the list leaves the list unchanged, an insert whose date is not
  today leaves it unchanged, and any other insert puts the record at the front.
\<close>

theorem insert_idempotent:
  "(roomSubscription todayStr' (INSERT newRoom) (roomSubscription todayStr (INSERT newRoom) prev)
       = roomSubscription todayStr (INSERT newRoom) prev
      \<longleftrightarrow> \<not> (\<not> list_ex (\<lambda>room. id_room room = id_room newRoom) prev
             \<and> session_date newRoom \<noteq> Some todayStr
             \<and> session_date newRoom = Some todayStr'))
   \<and> roomSubscription todayStr (INSERT newRoom) (roomSubscription todayStr (INSERT newRoom) prev)
     = roomSubscription todayStr (INSERT newRoom) prev
   \<and> (list_ex (\<lambda>room. id_room room = id_room newRoom) prev
        \<longrightarrow> roomSubscription todayStr (INSERT newRoom) prev = prev)
   \<and> (session_date newRoom \<noteq> Some todayStr
        \<longrightarrow> roomSubscription todayStr (INSERT newRoom) prev = prev)
   \<and> (\<not> list_ex (\<lambda>room. id_room room = id_room newRoom) prev
        \<and> session_date newRoom = Some todayStr
        \<longrightarrow> roomSubscription todayStr (INSERT newRoom) prev = newRoom # prev)"
  by (auto simp: roomSubscription_def)

text \<open>
  The row \<open>b\<close> of 5 January, delivered twice on that day, and a second time on the day
  after: it is at the front once. Delivered on the day after only, it is ignored.
\<close>

theorem insert_idempotent_witness:
  "\<not> list_ex (\<lambda>room. id_room room = id_room room_b) [room_a]
   \<and> session_date room_b = Some ''2025-01-05''
   \<and> roomSubscription ''2025-01-05'' (INSERT room_b) [room_a] = [room_b, room_a]
   \<and> roomSubscription ''2025-01-05'' (INSERT room_b)
        (roomSubscription ''2025-01-05'' (INSERT room_b) [room_a]) = [room_b, room_a]
   \<and> roomSubscription ''2025-01-06'' (INSERT room_b)
        (roomSubscription ''2025-01-05'' (INSERT room_b) [room_a]) = [room_b, room_a]
   \<and> session_date room_b \<noteq> Some ''2025-01-06''
   \<and> roomSubscription ''2025-01-06'' (INSERT room_b) [room_a] = [room_a]"
  using insert_idempotent [of "''2025-01-05''" room_b "''2025-01-05''" "[room_a]"]
    insert_idempotent [of "''2025-01-06''" room_b "''2025-01-05''" "[room_a]"]
    insert_idempotent [of "''2025-01-06''" room_b "''2025-01-06''" "[room_a]"]
  by (simp add: roomSubscription_def room_a_def room_b_def)

text \<open>
  Without a condition on the two readings the property fails across midnight: the row
  \<open>b\<close> of 5 January, delivered on 4 January, is ignored, and delivered again on
  5 January it is put at the front. Folding twice gives \<open>[b, a]\<close>, folding once gave
  \<open>[a]\<close>.
\<close>

theorem insert_idempotent_counterexample:
  "roomSubscription ''2025-01-04'' (INSERT room_b) [room_a] = [room_a]
   \<and> roomSubscription ''2025-01-05'' (INSERT room_b)
        (roomSubscription ''2025-01-04'' (INSERT room_b) [room_a]) = [room_b, room_a]
   \<and> roomSubscription ''2025-01-05'' (INSERT room_b)
        (roomSubscription ''2025-01-04'' (INSERT room_b) [room_a])
       \<noteq> roomSubscription ''2025-01-04'' (INSERT room_b) [room_a]"
  by (simp add: roomSubscription_def room_a_def room_b_def)


section \<open>Properties of the occupancy updater\<close>

text \<open>
  C1, as the code has it. The callback first drops every event whose record has no
  session id (\<^verbatim>\<open>if (!session?.room_id) return\<close>). For an update event that has one:
  no delta when the session ids of the old and the new record differ; else one delta of
  \<open>-1\<close> when the credits go from above zero to zero or below, one delta of \<open>+1\<close> when they
  go from zero or below to above zero, and no delta in every other case.
\<close>

theorem update_event_delta:
  "sessionSubscription (UPDATE oldSession newSession) =
     (if room_id newSession = [] then []
      else if room_id oldSession \<noteq> room_id newSession then []
      else if rewards_left oldSession > 0 \<and> rewards_left newSession \<le> 0
        then [(room_id newSession, - 1)]
      else if rewards_left oldSession \<le> 0 \<and> rewards_left newSession > 0
        then [(room_id newSession, 1)]
      else [])"
  by (simp add: sessionSubscription_def Let_def)

text \<open>Credits 5 to 0: one delta of \<open>-1\<close>. Credits 0 to 0: none. Credits 0 to 5: one of \<open>+1\<close>.\<close>

theorem update_event_delta_witness:
  "sessionSubscription (UPDATE session_5 (session_5\<lparr>rewards_left := 0\<rparr>)) = [(''a'', - 1)]
   \<and> sessionSubscription
        (UPDATE (session_5\<lparr>rewards_left := 0\<rparr>) (session_5\<lparr>rewards_left := 0\<rparr>)) = []
   \<and> sessionSubscription (UPDATE (session_5\<lparr>rewards_left := 0\<rparr>) session_5) = [(''a'', 1)]"
  using update_event_delta [of session_5 "session_5\<lparr>rewards_left := 0\<rparr>"]
    update_event_delta [of "session_5\<lparr>rewards_left := 0\<rparr>" "session_5\<lparr>rewards_left := 0\<rparr>"]
    update_event_delta [of "session_5\<lparr>rewards_left := 0\<rparr>" session_5]
  by (simp add: session_5_def)

text \<open>
  Without the condition on the session id the property fails: here the old and the new
  record have the same (empty) session id, the credits go from 5 to 0, and no delta is
  issued.
\<close>

theorem update_event_delta_counterexample:
  "room_id (session_5\<lparr>room_id := []\<rparr>) = room_id (session_5\<lparr>room_id := [], rewards_left := 0\<rparr>)
   \<and> rewards_left (session_5\<lparr>room_id := []\<rparr>) > 0
   \<and> rewards_left (session_5\<lparr>room_id := [], rewards_left := 0\<rparr>) \<le> 0
   \<and> sessionSubscription (UPDATE (session_5\<lparr>room_id := []\<rparr>)
         (session_5\<lparr>room_id := [], rewards_left := 0\<rparr>)) = []"
  by (simp add: sessionSubscription_def session_5_def)

text \<open>A delete event of the participation feed stops at the guard: no delta.\<close>

lemma delete_event_no_delta: "sessionSubscription (DELETE sessionData) = []"
  by (simp add: sessionSubscription_def)

lemma fetch_nonneg:
  "updateRoomUserCount_fetch fetchError rs roomId change = Inr n \<Longrightarrow> 0 \<le> n"
  by (auto simp: updateRoomUserCount_fetch_def split: option.splits sum.splits)

lemma update_nonneg:
  "list_all nonneg rs \<Longrightarrow> 0 \<le> n \<Longrightarrow>
     list_all nonneg (updateRoomUserCount_update updateError rs roomId n)"
  by (induction rs)
     (auto simp: updateRoomUserCount_update_def nonneg_def or_zero_def split: option.splits)

lemma update_unchanged_or_nonneg:
  "0 \<le> n \<Longrightarrow>
     list_all2 (\<lambda>r r'. r' = r \<or> nonneg r') rs (updateRoomUserCount_update updateError rs roomId n)"
  by (cases updateError)
     (auto simp: updateRoomUserCount_update_def list_all2_map2 list_all2_same nonneg_def or_zero_def)

lemma step_writes_nonneg: "writes_nonneg st \<Longrightarrow> writes_nonneg (step st a)"
proof (cases a)
  case (Call roomId change fetchError)
  assume "writes_nonneg st"
  then show ?thesis using Call
    by (auto simp: writes_nonneg_def split: sum.splits dest: fetch_nonneg)
next
  case (Resume i updateError)
  assume i: "writes_nonneg st"
  show ?thesis
  proof (cases "i < length (inflight st)")
    case True
    from i have all: "\<forall>w\<in>set (inflight st). 0 \<le> snd w"
      by (simp add: writes_nonneg_def list_all_iff)
    have "0 \<le> snd (inflight st ! i)" using all True by simp
    moreover have "\<forall>w\<in>set (take i (inflight st)). 0 \<le> snd w"
      using all by (meson in_set_takeD)
    moreover have "\<forall>w\<in>set (drop (Suc i) (inflight st)). 0 \<le> snd w"
      using all by (meson in_set_dropD)
    ultimately show ?thesis using i True Resume
      by (auto simp: writes_nonneg_def list_all_iff)
  next
    case False
    then show ?thesis using i Resume by simp
  qed
qed

lemma step_table_nonneg:
  assumes "writes_nonneg st" "list_all nonneg (table st)"
  shows "list_all nonneg (table (step st a))"
proof (cases a)
  case (Call roomId change fetchError)
  then show ?thesis using assms by (auto split: sum.splits)
next
  case (Resume i updateError)
  show ?thesis
  proof (cases "i < length (inflight st)")
    case True
    from assms have "0 \<le> snd (inflight st ! i)"
      using True by (simp add: writes_nonneg_def list_all_iff)
    then show ?thesis using assms True Resume by (simp add: update_nonneg)
  next
    case False
    then show ?thesis using assms Resume by simp
  qed
qed

lemma step_unchanged_or_nonneg:
  assumes "writes_nonneg st"
  shows "list_all2 (\<lambda>r r'. r' = r \<or> nonneg r') (table st) (table (step st a))"
proof (cases a)
  case (Call roomId change fetchError)
  then show ?thesis by (auto simp: list_all2_same split: sum.splits)
next
  case (Resume i updateError)
  show ?thesis
  proof (cases "i < length (inflight st)")
    case True
    from assms have "0 \<le> snd (inflight st ! i)"
      using True by (simp add: writes_nonneg_def list_all_iff)
    then show ?thesis using True Resume by (simp add: update_unchanged_or_nonneg)
  next
    case False
    then show ?thesis using Resume by (simp add: list_all2_same)
  qed
qed

lemma unchanged_or_nonneg_trans:
  assumes a: "list_all2 (\<lambda>r r'. r' = r \<or> nonneg r') xs ys"
    and b: "list_all2 (\<lambda>r r'. r' = r \<or> nonneg r') ys zs"
  shows "list_all2 (\<lambda>r r'. r' = r \<or> nonneg r') xs zs"
proof -
  have len: "length xs = length ys" "length ys = length zs"
    using a b by (simp_all add: list_all2_lengthD)
  show ?thesis
    unfolding list_all2_conv_all_nth
  proof (intro conjI allI impI)
    show "length xs = length zs" using len by simp
    fix i assume i: "i < length xs"
    from a i have 1: "ys ! i = xs ! i \<or> nonneg (ys ! i)"
      by (simp add: list_all2_conv_all_nth)
    from b i len have 2: "zs ! i = ys ! i \<or> nonneg (zs ! i)"
      by (simp add: list_all2_conv_all_nth)
    from 1 2 show "zs ! i = xs ! i \<or> nonneg (zs ! i)" by auto
  qed
qed

lemma run_writes_nonneg: "writes_nonneg st \<Longrightarrow> writes_nonneg (run st acts)"
  unfolding run_def by (induction acts arbitrary: st) (auto intro: step_writes_nonneg)

lemma run_table_nonneg:
  "writes_nonneg st \<Longrightarrow> list_all nonneg (table st) \<Longrightarrow> list_all nonneg (table (run st acts))"
  unfolding run_def
  by (induction acts arbitrary: st) (auto intro: step_writes_nonneg step_table_nonneg)

lemma run_unchanged_or_nonneg:
  "writes_nonneg st \<Longrightarrow>
     list_all2 (\<lambda>r r'. r' = r \<or> nonneg r') (table st) (table (run st acts))"
proof (induction acts arbitrary: st)
  case Nil
  then show ?case by (simp add: run_def list_all2_same)
next
  case (Cons a acts)
  have "list_all2 (\<lambda>r r'. r' = r \<or> nonneg r') (table (step st a)) (table (run (step st a) acts))"
    using Cons.IH [OF step_writes_nonneg [OF Cons.prems]] .
  with step_unchanged_or_nonneg [OF Cons.prems, of a]
  have "list_all2 (\<lambda>r r'. r' = r \<or> nonneg r') (table st) (table (run (step st a) acts))"
    by (rule unchanged_or_nonneg_trans)
  then show ?case by (simp add: run_def)
qed

lemma writes_nonneg_start: "writes_nonneg (start rs)"
  by (simp add: writes_nonneg_def start_def)

text \<open>
  A schedule that lets one call run to its end before anything else is the function
  \<^verbatim>\<open>updateRoomUserCount\<close> as a whole.
\<close>

lemma call_resume_atomic:
  "table (run (start rs) [Call roomId change fetchError, Resume 0 updateError])
     = fst (updateRoomUserCount fetchError updateError rs roomId change)
   \<and> writes (run (start rs) [Call roomId change fetchError, Resume 0 updateError])
     = snd (updateRoomUserCount fetchError updateError rs roomId change)"
  by (simp add: run_def start_def updateRoomUserCount_def split: sum.splits)

text \<open>
  C2. For every table of sessions and every schedule of updater operations, interleaved in
  any way and with any fetch or update refused by the store: every write issued carries a
  count that is not negative; every row of the table afterwards is the row as it was or
  has a counter that is not negative; so a table whose counters are not negative stays
  so. A call that finds its row issues the write \<open>max 0 (current + change)\<close>.
\<close>

theorem occupancy_never_negative:
  "list_all (\<lambda>w. 0 \<le> snd w) (writes (run (start rs) acts))
   \<and> list_all2 (\<lambda>r r'. r' = r \<or> nonneg r') rs (table (run (start rs) acts))
   \<and> (list_all nonneg rs \<longrightarrow> list_all nonneg (table (run (start rs) acts)))
   \<and> (single (filter (\<lambda>r. id_room r = roomId) rs) = Inr room \<longrightarrow>
        snd (updateRoomUserCount None updateError rs roomId change)
          = [(roomId, max 0 (or_zero (current_users room) + change))])"
proof (intro conjI impI)
  show "list_all (\<lambda>w. 0 \<le> snd w) (writes (run (start rs) acts))"
    using run_writes_nonneg [OF writes_nonneg_start, of rs acts] by (simp add: writes_nonneg_def)
  show "list_all2 (\<lambda>r r'. r' = r \<or> nonneg r') rs (table (run (start rs) acts))"
    using run_unchanged_or_nonneg [OF writes_nonneg_start, of rs acts] by (simp add: start_def)
  show "list_all nonneg (table (run (start rs) acts))" if "list_all nonneg rs"
    using run_table_nonneg [OF writes_nonneg_start, of rs acts] that by (simp add: start_def)
  show "snd (updateRoomUserCount None updateError rs roomId change)
          = [(roomId, max 0 (or_zero (current_users room) + change))]"
    if "single (filter (\<lambda>r. id_room r = roomId) rs) = Inr room"
    using that by (simp add: updateRoomUserCount_def updateRoomUserCount_fetch_def)
qed

text \<open>
  Two \<open>-1\<close> operations on a session with one participant, both fetched before either
  writes: each write is 0 and the counter ends at 0.
\<close>

theorem occupancy_never_negative_witness:
  "list_all nonneg [room_a\<lparr>current_users := Some 1\<rparr>]
   \<and> single (filter (\<lambda>r. id_room r = ''a'') [room_a\<lparr>current_users := Some 1\<rparr>])
       = Inr (room_a\<lparr>current_users := Some 1\<rparr>)
   \<and> writes (run (start [room_a\<lparr>current_users := Some 1\<rparr>])
        [Call ''a'' (- 1) None, Call ''a'' (- 1) None, Resume 0 None, Resume 0 None])
       = [(''a'', 0), (''a'', 0)]
   \<and> list_all nonneg (table (run (start [room_a\<lparr>current_users := Some 1\<rparr>])
        [Call ''a'' (- 1) None, Call ''a'' (- 1) None, Resume 0 None, Resume 0 None]))
   \<and> snd (updateRoomUserCount None None [room_a\<lparr>current_users := Some 1\<rparr>] ''a'' (- 1))
       = [(''a'', 0)]"
  using occupancy_never_negative [of "[room_a\<lparr>current_users := Some 1\<rparr>]"
      "[Call ''a'' (- 1) None, Call ''a'' (- 1) None, Resume 0 None, Resume 0 None]"
      "''a''" "room_a\<lparr>current_users := Some 1\<rparr>" None "- 1"]
  by (simp add: run_def start_def room_a_def single_def nonneg_def or_zero_def
      updateRoomUserCount_fetch_def updateRoomUserCount_update_def)


section \<open>Properties of the status classifier\<close>

lemma todayFormatted_nonempty: "todayFormatted d \<noteq> []"
  by (simp add: todayFormatted_def Let_def)

text \<open>The flag \<^verbatim>\<open>isActive\<close> of the code is the gate of the specification.\<close>

lemma badge_by_gate:
  "getStatusBadge env room =
     (if \<not> date_time_gate env room then Inactive
      else if or_zero (current_users room) \<ge> max_users room then Full else Active)"
  using todayFormatted_nonempty [of "now env"]
  by (auto simp: getStatusBadge_def date_time_gate_def start_minutes_def end_minutes_def
        num_ge_def num_le_def Let_def split: option.splits)

lemma today_0105: "todayFormatted (Date_at 2025 0 5 h mi) = ''2025-01-05''"
  by (simp add: todayFormatted_def String_num_def padStart_def String_nat.simps)

text \<open>
  C3, as the code has it. The classifier returns \<open>Inactive\<close> iff the gate fails (the
  session's date is not today's date, or the current minutes since midnight are not
  within [start, end], both ends included), whatever the occupancy is. It returns \<open>Full\<close>
  iff the gate passes and the occupancy is at least the maximum, and \<open>Active\<close> iff the gate
  passes and the occupancy is below the maximum.
\<close>

theorem status_badge_classes:
  "(getStatusBadge env room = Active
      \<longleftrightarrow> date_time_gate env room \<and> or_zero (current_users room) < max_users room)
   \<and> (getStatusBadge env room = Inactive \<longleftrightarrow> \<not> date_time_gate env room)
   \<and> (getStatusBadge env room = Full
      \<longleftrightarrow> date_time_gate env room \<and> or_zero (current_users room) \<ge> max_users room)"
  by (simp add: badge_by_gate)

text \<open>
  A session of today from 09:00 to 17:00: with 3 of 10 at 12:00 it is active, at 20:00 it
  is inactive, and with 10 of 10 at 20:00 it is inactive, not full. Both ends of the
  window are inside: active at 09:00 and at 17:00, inactive at 08:59 and at 17:01.
\<close>

theorem status_badge_classes_witness:
  "date_time_gate (env_at 12 0) room_a \<and> getStatusBadge (env_at 12 0) room_a = Active
   \<and> \<not> date_time_gate (env_at 20 0) room_a \<and> getStatusBadge (env_at 20 0) room_a = Inactive
   \<and> \<not> date_time_gate (env_at 20 0) room_b \<and> getStatusBadge (env_at 20 0) room_b = Inactive
   \<and> or_zero (current_users room_b) \<ge> max_users room_b
   \<and> getStatusBadge (env_at 9 0) room_a = Active
   \<and> getStatusBadge (env_at 17 0) room_a = Active
   \<and> getStatusBadge (env_at 8 59) room_a = Inactive
   \<and> getStatusBadge (env_at 17 1) room_a = Inactive"
  using status_badge_classes [of "env_at 12 0" room_a]
    status_badge_classes [of "env_at 20 0" room_a]
    status_badge_classes [of "env_at 20 0" room_b]
    status_badge_classes [of "env_at 9 0" room_a]
    status_badge_classes [of "env_at 17 0" room_a]
    status_badge_classes [of "env_at 8 59" room_a]
    status_badge_classes [of "env_at 17 1" room_a]
  by (simp add: date_time_gate_def start_minutes_def end_minutes_def parseTimeString_def
        minutesOfDay_def env_at_def room_a_def room_b_def today_0105 or_zero_def)

text \<open>
  \<open>Active\<close> iff the gate passes, without the condition on the occupancy, fails for a
  full session inside its window: at 12:00 the session of today from 09:00 (minute 540)
  to 17:00 (minute 1020) with 10 of 10 is \<open>Full\<close>.
\<close>

theorem status_badge_counterexample:
  "session_date room_b = Some (todayFormatted (now (env_at 12 0)))
   \<and> start_minutes (env_at 12 0) room_b = Some 540
   \<and> minutesOfDay (now (env_at 12 0)) = Some 720
   \<and> end_minutes (env_at 12 0) room_b = Some 1020
   \<and> date_time_gate (env_at 12 0) room_b
   \<and> getStatusBadge (env_at 12 0) room_b = Full"
  by (simp add: badge_by_gate date_time_gate_def start_minutes_def end_minutes_def
        parseTimeString_def minutesOfDay_def env_at_def room_b_def today_0105 or_zero_def)


section \<open>Properties of the promo code badge\<close>

text \<open>
  C9. The badge of a promo code reads \<open>Active\<close> iff its usage count is strictly below its
  usage cap and it has no expiry date or its expiry date is in the future; otherwise it
  reads \<open>Expired\<close>. The code SAVE20 with cap 50 and no expiry is expired at 50 uses and
  active at 49.
\<close>

theorem promo_badge_active:
  "(promoCodeStatus getTime nowMs c = ''Active'' \<longleftrightarrow> promo_active_spec getTime nowMs c)
   \<and> (promoCodeStatus getTime nowMs c = ''Expired'' \<longleftrightarrow> \<not> promo_active_spec getTime nowMs c)
   \<and> promoCodeStatus getTime nowMs (SAVE20 50) = ''Expired''
   \<and> promoCodeStatus getTime nowMs (SAVE20 49) = ''Active''"
  by (auto simp: promoCodeStatus_def promo_active_spec_def no_expiry_def expiry_in_future_def
        SAVE20_def or_zero_def split: option.splits)

text \<open>A code below its cap that expires at time 2000: active at time 1000, expired at 3000.\<close>

theorem promo_badge_active_witness:
  "promo_active_spec (\<lambda>s. if s = ''2025-12-31'' then Some 2000 else None) 1000
       ((SAVE20 49)\<lparr>expiry_date := Some ''2025-12-31''\<rparr>)
   \<and> promoCodeStatus (\<lambda>s. if s = ''2025-12-31'' then Some 2000 else None) 1000
       ((SAVE20 49)\<lparr>expiry_date := Some ''2025-12-31''\<rparr>) = ''Active''
   \<and> promoCodeStatus (\<lambda>s. if s = ''2025-12-31'' then Some 2000 else None) 3000
       ((SAVE20 49)\<lparr>expiry_date := Some ''2025-12-31''\<rparr>) = ''Expired''"
  using promo_badge_active [of "\<lambda>s. if s = ''2025-12-31'' then Some 2000 else None" 1000
      "(SAVE20 49)\<lparr>expiry_date := Some ''2025-12-31''\<rparr>"]
    promo_badge_active [of "\<lambda>s. if s = ''2025-12-31'' then Some 2000 else None" 3000
      "(SAVE20 49)\<lparr>expiry_date := Some ''2025-12-31''\<rparr>"]
  by (simp add: promo_active_spec_def no_expiry_def expiry_in_future_def SAVE20_def or_zero_def)


section \<open>Properties of deleting a session\<close>

text \<open>
  C7. \<^verbatim>\<open>deleteRoom\<close> issues the delete of the participation records first and the delete
  of the session row, if at all, after it. If the store refuses the first delete, the
  delete of the session row is never issued, the error is returned, and the store is as it
  was: the session row is still there.
\<close>

theorem delete_room_sessions_first:
  "(fst (snd (deleteRoom sessionsError error d id')) = [Delete_user_sessions id']
      \<or> fst (snd (deleteRoom sessionsError error d id'))
          = [Delete_user_sessions id', Delete_rooms id'])
   \<and> (sessionsError = Some e \<longrightarrow>
        deleteRoom sessionsError error d id' = (d, [Delete_user_sessions id'], Some e)
        \<and> Delete_rooms id' \<notin> set (fst (snd (deleteRoom sessionsError error d id')))
        \<and> rooms (fst (deleteRoom sessionsError error d id')) = rooms d)"
  by (auto simp: deleteRoom_def Let_def split: option.splits)

theorem delete_room_sessions_first_witness:
  "deleteRoom (Some ''permission denied'') None db_0 ''a''
     = (db_0, [Delete_user_sessions ''a''], Some ''permission denied'')
   \<and> rooms (fst (deleteRoom (Some ''permission denied'') None db_0 ''a'')) = [room_a, room_b]
   \<and> fst (snd (deleteRoom None None db_0 ''a'')) = [Delete_user_sessions ''a'', Delete_rooms ''a'']
   \<and> rooms (fst (deleteRoom None None db_0 ''a'')) = [room_b]"
  using delete_room_sessions_first [of "Some ''permission denied''" None db_0 "''a''"
      "''permission denied''"]
    delete_room_sessions_first [of None None db_0 "''a''" "''permission denied''"]
  by (simp add: deleteRoom_def db_0_def room_a_def room_b_def session_5_def)


section \<open>Properties of rejecting a withdrawal\<close>

lemma trim_empty_iff: "trim s = [] \<longleftrightarrow> list_all isWhiteSpace s"
proof
  assume "trim s = []"
  then have all: "\<forall>x\<in>set (dropWhile isWhiteSpace s). isWhiteSpace x"
    by (simp add: trim_def)
  have "dropWhile isWhiteSpace s = []"
  proof (rule ccontr)
    assume ne: "dropWhile isWhiteSpace s \<noteq> []"
    then have "\<not> isWhiteSpace (hd (dropWhile isWhiteSpace s))" by (rule hd_dropWhile)
    moreover have "hd (dropWhile isWhiteSpace s) \<in> set (dropWhile isWhiteSpace s)"
      using ne by simp
    ultimately show False using all by blast
  qed
  then show "list_all isWhiteSpace s" by (simp add: list_all_iff)
next
  assume "list_all isWhiteSpace s"
  then have "dropWhile isWhiteSpace s = []" by (simp add: list_all_iff)
  then show "trim s = []" unfolding trim_def by (simp del: dropWhile_eq_Nil_conv)
qed

text \<open>
  C8. \<^verbatim>\<open>handleConfirmReject\<close> returns at once, with the state and the store as they
  were and no remote call issued, whenever no withdrawal is selected or the trimmed note
  is empty; and the trimmed note is empty exactly when the note is empty or white space
  only.
\<close>

theorem reject_refused_without_note:
  "(selectedWithdrawal st = None \<or> trim (notes_state st) = []
      \<longrightarrow> handleConfirmReject error st tbl = (st, tbl, []))
   \<and> (trim (notes_state st) = [] \<longleftrightarrow> list_all isWhiteSpace (notes_state st))"
  by (auto simp: handleConfirmReject_def trim_empty_iff split: option.splits)

text \<open>A note of a blank and a tab, and the empty note: nothing is issued.\<close>

theorem reject_refused_without_note_witness:
  "trim (notes_state (reject_modal [CHR 0x20, CHR 0x09])) = []
   \<and> handleConfirmReject None (reject_modal [CHR 0x20, CHR 0x09]) [row_with_notes]
       = (reject_modal [CHR 0x20, CHR 0x09], [row_with_notes], [])
   \<and> handleConfirmReject None (reject_modal []) [row_with_notes]
       = (reject_modal [], [row_with_notes], [])"
  using reject_refused_without_note [of "reject_modal [CHR 0x20, CHR 0x09]" None "[row_with_notes]"]
    reject_refused_without_note [of "reject_modal []" None "[row_with_notes]"]
  by (simp add: reject_modal_def isWhiteSpace_def)

text \<open>
  The function of lib/supabase.js does what C4 says: when the fetch finds the record, the
  one update it issues sets \<^verbatim>\<open>status\<close> to \<^verbatim>\<open>rejected\<close> and has a \<^verbatim>\<open>notes\<close> field iff
  the record has one; when the fetch fails, it issues no update.
\<close>

lemma supabase_reject_notes_iff:
  "single (filter (id_is id') tbl) = Inr currentRecord \<Longrightarrow>
   \<exists>obj. updates_issued (fst (snd (rejectWithdrawal_supabase None error tbl id' notes'))) = [obj]
      \<and> map_of obj ''status'' = Some (JString ''rejected'')
      \<and> (has_field ''notes'' obj \<longleftrightarrow> has_field ''notes'' currentRecord)"
  by (auto simp: rejectWithdrawal_supabase_def Let_def has_field_def split: option.splits)

lemma supabase_reject_fetch_failed:
  "updates_issued (fst (snd (rejectWithdrawal_supabase (Some e) error tbl id' notes'))) = []"
  by (simp add: rejectWithdrawal_supabase_def)

text \<open>
  C4. The component does not call that function: \<^verbatim>\<open>handleConfirmReject\<close> calls the
  \<^verbatim>\<open>rejectWithdrawal\<close> of PayoutManager.tsx, which fetches nothing and always writes the
  note. On a record without a \<^verbatim>\<open>notes\<close> field, rejected with the note
  \<^verbatim>\<open>duplicate\<close>, the update issued has a \<^verbatim>\<open>notes\<close> field; the function of
  lib/supabase.js on the same input issues the update without it.
\<close>

theorem reject_local_always_notes:
  "single (filter (id_is ''w1'') [row_without_notes]) = Inr row_without_notes
   \<and> \<not> has_field ''notes'' row_without_notes
   \<and> snd (snd (handleConfirmReject None (reject_modal ''duplicate'') [row_without_notes]))
       = [Update [(''status'', JString ''rejected''), (''notes'', JString ''duplicate'')] ''w1'']
   \<and> fst (snd (rejectWithdrawal None [row_without_notes] ''w1'' ''duplicate''))
       = [Update [(''status'', JString ''rejected''), (''notes'', JString ''duplicate'')] ''w1'']
   \<and> fst (snd (rejectWithdrawal_supabase None None [row_without_notes] ''w1'' ''duplicate''))
       = [Select_single ''w1'', Update [(''status'', JString ''rejected'')] ''w1'']"
  by (simp add: handleConfirmReject_def rejectWithdrawal_def rejectWithdrawal_supabase_def
      reject_modal_def withdrawal_1_def row_without_notes_def single_def id_is_def has_field_def
      trim_def isWhiteSpace_def Let_def)

end
